theory Spec2Isabelle
  imports Main
begin

section \<open>The Authenticator of the SPA (spa/src/plumbing/oauth/authenticator.ts)\<close>

text \<open>
  The class \<open>Authenticator\<close> sequences login, silent token renewal and logout on top of
  the oidc-client-ts \<open>UserManager\<close>. Its methods are embedded as functions over an explicit
  state: the private field \<open>_loginTime\<close>, the two stores of the user manager, the login
  flag behind \<open>HtmlStorageHelper.isLoggedIn\<close>, and what the methods read from and write
  to the browser. An exception is a value: every method returns a pair of a result
  (\<open>Inl\<close> the thrown error, \<open>Inr\<close> the returned value) and the state it leaves behind,
  so a state change made before a \<open>throw\<close> is kept.
\<close>

subsection \<open>JavaScript truthiness\<close>

text \<open>
  The source tests values by truthiness: \<open>if (state)\<close>, \<open>user && user.refresh_token\<close>,
  \<open>api401Error && this._loginTime\<close>. A string is truthy when it is not empty, a
  \<open>string | undefined\<close> when it is defined and not empty, a \<open>number | null\<close> when it is
  not null and not 0, an object reference when it is not null.
\<close>

definition truthy :: "string \<Rightarrow> bool" where
  "truthy s = (s \<noteq> [])"

definition truthy_opt :: "string option \<Rightarrow> bool" where
  "truthy_opt v = (case v of None \<Rightarrow> False | Some s \<Rightarrow> truthy s)"

definition truthy_num :: "int option \<Rightarrow> bool" where
  "truthy_num v = (case v of None \<Rightarrow> False | Some n \<Rightarrow> n \<noteq> 0)"

subsection \<open>Data\<close>

text \<open>
  \<open>login_data\<close> is the object \<open>{hash: ...}\<close> that \<open>startLogin\<close> hands to
  \<open>signinRedirect\<close> as \<open>state\<close>. A \<open>user\<close> has the fields of the library's \<open>User\<close>
  that the class reads or writes: \<open>access_token\<close> (a string), \<open>refresh_token\<close>
  (\<open>string | undefined\<close>) and \<open>state\<close> (the data of the login redirect, \<open>undefined\<close> for
  a user that carries none).
\<close>

record login_data =
  hash :: string

record user =
  access_token :: string
  refresh_token :: "string option"
  state :: "login_data option"

record oauth_configuration =
  authority :: string
  clientId :: string
  redirectUri :: string
  postLogoutRedirectUri :: string
  scope :: string
  provider :: string
  customLogoutEndpoint :: string

subsection \<open>Errors\<close>

text \<open>
  What the library throws is an \<open>oidc_error\<close>: its \<open>error\<close> property is the OAuth error
  code of an error response and is \<open>undefined\<close> on any other exception. Reading a
  property of \<open>undefined\<close> throws a \<open>TypeError\<close>. A \<open>ui_error\<close> is the application's
  \<open>UIError\<close>: it carries an error code and the cause it wraps. A \<open>catch (e: any)\<close>
  receives either kind.
\<close>

datatype oidc_error = OidcError (error: "string option") (message: string)

datatype raw_error = LibError oidc_error | TypeError

datatype ui_error = UIError (errorCode: string) (statusCode: int) (cause: "raw_error option")

datatype thrown = Handled ui_error | Raw raw_error

text \<open>
  \<open>ErrorCodes\<close> (plumbing/errors/errorCodes) and \<open>ErrorFactory\<close>
  (plumbing/errors/errorFactory) are imported by the class. Their constants and
  functions are parameters of the methods that use them.
\<close>

record error_codes =
  loginRequired :: string
  sessionExpired :: string
  tokenRenewalError :: string
  loginRequestFailed :: string
  loginResponseFailed :: string

record error_factory =
  getFromLoginOperation :: "thrown \<Rightarrow> string \<Rightarrow> ui_error"
  getFromTokenError :: "thrown \<Rightarrow> string \<Rightarrow> ui_error"

subsection \<open>State\<close>

text \<open>
  \<open>interaction\<close> names the calls into the protocol layer that leave the page or go to
  the authorization server; \<open>interactions\<close> lists them in the order they were made.
  \<open>replaced\<close> lists the URLs given to \<open>history.replaceState\<close>, the latest first; how
  the browser resolves such a URL against the current address is the browser's.
  \<open>userStore\<close> is the in-memory user store (\<open>getUser\<close> returns its content, or null),
  \<open>stateStore\<close> the redirect state kept in session storage, by state identifier.
  \<open>location_search\<close> is the query of the page's URL as the pairs that
  \<open>URLSearchParams\<close> reads, \<open>location_hash\<close> is \<open>location.hash\<close>.
\<close>

datatype interaction = SigninRedirect login_data | SigninRedirectCallback | SigninSilent

record world =
  userStore :: "user option"
  stateStore :: "(string \<times> string) list"
  loginTime :: "int option"
  isLoggedIn :: bool
  location_search :: "(string \<times> string) list"
  location_hash :: string
  replaced :: "string list"
  interactions :: "interaction list"

subsection \<open>The protocol layer\<close>

text \<open>
  The calls into \<open>UserManager\<close> that reach the authorization server have an outcome the
  class does not decide: the outcome is an argument. Each call is recorded. A silent
  renewal and a login callback that succeed leave the user they return in the user
  store, where \<open>getUser\<close> finds it; one that throws leaves the stores as they were.
\<close>

datatype 'a outcome = Throws oidc_error | Returns 'a

definition getUser :: "world \<Rightarrow> user option" where
  "getUser w = userStore w"

definition storeUser :: "user \<Rightarrow> world \<Rightarrow> world" where
  "storeUser u w = w\<lparr>userStore := Some u\<rparr>"

definition removeUser :: "world \<Rightarrow> world" where
  "removeUser w = w\<lparr>userStore := None\<rparr>"

definition record_call :: "interaction \<Rightarrow> world \<Rightarrow> world" where
  "record_call c w = w\<lparr>interactions := interactions w @ [c]\<rparr>"

definition signinSilent :: "user outcome \<Rightarrow> world \<Rightarrow> (oidc_error + user) \<times> world" where
  "signinSilent out w =
     (case out of
        Throws e \<Rightarrow> (Inl e, record_call SigninSilent w)
      | Returns u \<Rightarrow> (Inr u, storeUser u (record_call SigninSilent w)))"

definition signinRedirectCallback :: "user outcome \<Rightarrow> world \<Rightarrow> (oidc_error + user) \<times> world" where
  "signinRedirectCallback out w =
     (case out of
        Throws e \<Rightarrow> (Inl e, record_call SigninRedirectCallback w)
      | Returns u \<Rightarrow> (Inr u, storeUser u (record_call SigninRedirectCallback w)))"

definition signinRedirect :: "login_data \<Rightarrow> unit outcome \<Rightarrow> world \<Rightarrow> (oidc_error + unit) \<times> world" where
  "signinRedirect d out w =
     (case out of
        Throws e \<Rightarrow> (Inl e, record_call (SigninRedirect d) w)
      | Returns _ \<Rightarrow> (Inr (), record_call (SigninRedirect d) w))"

definition replaceState :: "string \<Rightarrow> world \<Rightarrow> world" where
  "replaceState url w = w\<lparr>replaced := url # replaced w\<rparr>"

subsection \<open>clearLoginState\<close>

definition clearLoginState :: "world \<Rightarrow> world" where
  "clearLoginState w = (removeUser w)\<lparr>loginTime := None, isLoggedIn := False\<rparr>"

subsection \<open>Silent renewal\<close>

text \<open>
  \<open>_performAccessTokenRenewalViaIframeRedirect\<close> and
  \<open>_performAccessTokenRenewalViaRefreshToken\<close>: both call \<open>signinSilent\<close>; the first
  takes \<open>ErrorCodes.loginRequired\<close> as the expected failure, the second
  \<open>ErrorCodes.sessionExpired\<close>.
\<close>

definition performAccessTokenRenewalViaIframeRedirect ::
  "error_codes \<Rightarrow> error_factory \<Rightarrow> user outcome \<Rightarrow> world \<Rightarrow> (ui_error + unit) \<times> world" where
  "performAccessTokenRenewalViaIframeRedirect codes ef out w =
     (case signinSilent out w of
        (Inr u, w1) \<Rightarrow> (Inr (), w1)
      | (Inl e, w1) \<Rightarrow>
          if error e = Some (loginRequired codes)
          then (Inr (), clearLoginState w1)
          else (Inl (getFromTokenError ef (Raw (LibError e)) (tokenRenewalError codes)), w1))"

definition performAccessTokenRenewalViaRefreshToken ::
  "error_codes \<Rightarrow> error_factory \<Rightarrow> user outcome \<Rightarrow> world \<Rightarrow> (ui_error + unit) \<times> world" where
  "performAccessTokenRenewalViaRefreshToken codes ef out w =
     (case signinSilent out w of
        (Inr u, w1) \<Rightarrow> (Inr (), w1)
      | (Inl e, w1) \<Rightarrow>
          if error e = Some (sessionExpired codes)
          then (Inr (), clearLoginState w1)
          else (Inl (getFromTokenError ef (Raw (LibError e)) (tokenRenewalError codes)), w1))"

subsection \<open>refreshAccessToken and getAccessToken\<close>

text \<open>
  \<open>has_refresh_token\<close> is the test \<open>user && user.refresh_token\<close>.
  \<open>remove_refresh_token\<close> is the last statement of the iframe branch: the token is
  set to the empty string and the user stored again (the call to \<open>storeUser\<close> is not
  awaited; the in-memory store is written before the call returns).
  \<open>renew\<close> is the provider branch of \<open>refreshAccessToken\<close> (the body of
  \<open>if (HtmlStorageHelper.isLoggedIn)\<close> up to the final read of the user);
  \<open>current_token\<close> is that final read, \<open>updatedUser && updatedUser.access_token\<close>.
\<close>

definition has_refresh_token :: "user option \<Rightarrow> bool" where
  "has_refresh_token v = (case v of None \<Rightarrow> False | Some u \<Rightarrow> truthy_opt (refresh_token u))"

definition remove_refresh_token :: "world \<Rightarrow> world" where
  "remove_refresh_token w =
     (case getUser w of
        None \<Rightarrow> w
      | Some u \<Rightarrow>
          if truthy_opt (refresh_token u)
          then storeUser (u\<lparr>refresh_token := Some []\<rparr>) w
          else w)"

definition renew ::
  "oauth_configuration \<Rightarrow> error_codes \<Rightarrow> error_factory \<Rightarrow> user outcome \<Rightarrow> world
     \<Rightarrow> (ui_error + unit) \<times> world" where
  "renew cfg codes ef out w =
     (if provider cfg = ''cognito'' then
        (if has_refresh_token (getUser w)
         then performAccessTokenRenewalViaRefreshToken codes ef out w
         else (Inr (), w))
      else
        (case performAccessTokenRenewalViaIframeRedirect codes ef out w of
           (Inl e, w1) \<Rightarrow> (Inl e, w1)
         | (Inr _, w1) \<Rightarrow> (Inr (), remove_refresh_token w1)))"

definition current_token :: "world \<Rightarrow> string option" where
  "current_token w =
     (case getUser w of
        None \<Rightarrow> None
      | Some u \<Rightarrow> if truthy (access_token u) then Some (access_token u) else None)"

definition refreshAccessToken ::
  "oauth_configuration \<Rightarrow> error_codes \<Rightarrow> error_factory \<Rightarrow> user outcome \<Rightarrow> world
     \<Rightarrow> (ui_error + string option) \<times> world" where
  "refreshAccessToken cfg codes ef out w =
     (if isLoggedIn w then
        (case renew cfg codes ef out w of
           (Inl e, w1) \<Rightarrow> (Inl e, w1)
         | (Inr _, w1) \<Rightarrow> (Inr (current_token w1), w1))
      else (Inr None, w))"

definition getAccessToken ::
  "oauth_configuration \<Rightarrow> error_codes \<Rightarrow> error_factory \<Rightarrow> user outcome \<Rightarrow> world
     \<Rightarrow> (ui_error + string option) \<times> world" where
  "getAccessToken cfg codes ef out w =
     (case getUser w of
        None \<Rightarrow> refreshAccessToken cfg codes ef out w
      | Some u \<Rightarrow>
          if truthy (access_token u)
          then (Inr (Some (access_token u)), w)
          else refreshAccessToken cfg codes ef out w)"

subsection \<open>startLogin and the redirect loop guard\<close>

text \<open>
  \<open>now\<close> is the value of \<open>new Date().getTime()\<close>, in milliseconds.
  \<open>redirect_data\<close> is the constant \<open>data\<close> of \<open>startLogin\<close>.
\<close>

definition preventRedirectLoop ::
  "ui_error option \<Rightarrow> int \<Rightarrow> world \<Rightarrow> (ui_error + unit) \<times> world" where
  "preventRedirectLoop api401Error now w =
     (case api401Error of
        None \<Rightarrow> (Inr (), w)
      | Some err \<Rightarrow>
          if truthy_num (loginTime w) then
            (case loginTime w of
               None \<Rightarrow> (Inr (), w)
             | Some t \<Rightarrow>
                 if now - t < 1000
                 then (Inl err, clearLoginState w)
                 else (Inr (), w))
          else (Inr (), w))"

definition redirect_data :: "world \<Rightarrow> login_data" where
  "redirect_data w =
     \<lparr>hash = (if length (location_hash w) > 0 then location_hash w else ''#'')\<rparr>"

definition startLogin ::
  "error_codes \<Rightarrow> error_factory \<Rightarrow> ui_error option \<Rightarrow> int \<Rightarrow> unit outcome \<Rightarrow> world
     \<Rightarrow> (ui_error + unit) \<times> world" where
  "startLogin codes ef api401Error now out w =
     (let data = redirect_data w in
      case preventRedirectLoop api401Error now w of
        (Inl e, w1) \<Rightarrow>
          (Inl (getFromLoginOperation ef (Handled e) (loginRequestFailed codes)), w1)
      | (Inr _, w1) \<Rightarrow>
          (case signinRedirect data out w1 of
             (Inl e, w2) \<Rightarrow>
               (Inl (getFromLoginOperation ef (Raw (LibError e)) (loginRequestFailed codes)), w2)
           | (Inr _, w2) \<Rightarrow> (Inr (), w2)))"

subsection \<open>handleLoginResponse\<close>

text \<open>
  \<open>complete_login\<close> is the \<open>try\<close> / \<open>catch\<close> / \<open>finally\<close> statement of
  \<open>handleLoginResponse\<close>: \<open>redirectLocation\<close> is \<open>'#'\<close> until the assignment from
  \<open>user.state\<close> is reached, and the \<open>finally\<close> block runs on every path.
\<close>

definition complete_login ::
  "oauth_configuration \<Rightarrow> error_codes \<Rightarrow> error_factory \<Rightarrow> user outcome \<Rightarrow> int \<Rightarrow> world
     \<Rightarrow> (ui_error + unit) \<times> world" where
  "complete_login cfg codes ef out now w =
     (case signinRedirectCallback out w of
        (Inl e, w1) \<Rightarrow>
          (Inl (getFromLoginOperation ef (Raw (LibError e)) (loginResponseFailed codes)),
           replaceState ''#'' w1)
      | (Inr u, w1) \<Rightarrow>
          (let u1 = (if provider cfg \<noteq> ''cognito'' then u\<lparr>refresh_token := Some []\<rparr> else u);
               w2 = storeUser u1 w1
           in case state u1 of
                None \<Rightarrow>
                  (Inl (getFromLoginOperation ef (Raw TypeError) (loginResponseFailed codes)),
                   replaceState ''#'' w2)
              | Some d \<Rightarrow>
                  (Inr (), replaceState (hash d) (w2\<lparr>isLoggedIn := True, loginTime := Some now\<rparr>))))"

definition handleLoginResponse ::
  "oauth_configuration \<Rightarrow> error_codes \<Rightarrow> error_factory \<Rightarrow> user outcome \<Rightarrow> int \<Rightarrow> world
     \<Rightarrow> (ui_error + unit) \<times> world" where
  "handleLoginResponse cfg codes ef out now w =
     (case map_of (location_search w) ''state'' of
        None \<Rightarrow> (Inr (), w)
      | Some st \<Rightarrow>
          if truthy st then
            (case map_of (stateStore w) st of
               None \<Rightarrow> (Inr (), w)
             | Some storedState \<Rightarrow>
                 if truthy storedState
                 then complete_login cfg codes ef out now w
                 else (Inr (), w))
          else (Inr (), w))"

subsection \<open>The address after history.replaceState\<close>

text \<open>
  The browser resolves the URL given to \<open>history.replaceState\<close> against the address of
  the page. A URL that starts with \<open>#\<close> is a reference made of a fragment alone: the
  path and the query of the address are kept and only the fragment is replaced. The
  class passes \<open>'#'\<close> or a saved \<open>location.hash\<close>, which are of that kind.
  \<open>visible_query\<close> is the query of the address the navigation entry shows:
  the query the page was loaded with, as long as every URL given to \<open>replaceState\<close>
  was a fragment alone; other URLs are not resolved here (\<open>None\<close>).
\<close>

definition fragment_only :: "string \<Rightarrow> bool" where
  "fragment_only url = (case url of [] \<Rightarrow> False | c # _ \<Rightarrow> c = CHR ''#'')"

definition visible_query :: "world \<Rightarrow> (string \<times> string) list option" where
  "visible_query w =
     (if list_all fragment_only (replaced w) then Some (location_search w) else None)"

subsection \<open>Concrete values\<close>

text \<open>
  An instance of each parameter and a few states, on which the methods are evaluated.
  The error codes of \<open>sample_codes\<close> are the ones the comments of the renewal methods
  name (\<open>login_required\<close>, \<open>invalid_grant\<close>), with a code for each operation.
\<close>

text \<open>
  Modelled from the spec: \<open>ErrorFactory\<close> is not among the sources. By the spec,
  \<open>startLogin\<close> rethrows the API error it was given as it is, and every other failure
  is wrapped in an error that carries the stable code of the operation:
  \<open>wrapping_factory\<close> returns a \<open>UIError\<close> unchanged and wraps anything else.
\<close>

definition wrap_error :: "thrown \<Rightarrow> string \<Rightarrow> ui_error" where
  "wrap_error e code = (case e of Handled u \<Rightarrow> u | Raw r \<Rightarrow> UIError code 0 (Some r))"

definition wrapping_factory :: error_factory where
  "wrapping_factory = \<lparr>getFromLoginOperation = wrap_error, getFromTokenError = wrap_error\<rparr>"

definition sample_codes :: error_codes where
  "sample_codes =
     \<lparr>loginRequired = ''login_required'', sessionExpired = ''invalid_grant'',
      tokenRenewalError = ''token_renewal_error'', loginRequestFailed = ''login_request_failed'',
      loginResponseFailed = ''login_response_failed''\<rparr>"

definition config_for :: "string \<Rightarrow> oauth_configuration" where
  "config_for p =
     \<lparr>authority = ''https://login.example.com'', clientId = ''spa'',
      redirectUri = ''https://web.example.com/spa'',
      postLogoutRedirectUri = ''https://web.example.com/spa/loggedout'',
      scope = ''openid profile'', provider = p,
      customLogoutEndpoint = ''https://login.example.com/logout''\<rparr>"

definition callback_world :: world where
  "callback_world =
     \<lparr>userStore = None, stateStore = [(''s1'', ''stored'')], loginTime = None,
      isLoggedIn = False, location_search = [(''code'', ''c1''), (''state'', ''s1'')],
      location_hash = [], replaced = [], interactions = []\<rparr>"

definition fresh_user :: user where
  "fresh_user =
     \<lparr>access_token = ''at1'', refresh_token = Some ''rt1'', state = Some \<lparr>hash = ''#foo''\<rparr>\<rparr>"

definition session_world :: world where
  "session_world =
     \<lparr>userStore = Some \<lparr>access_token = ''at0'', refresh_token = Some ''rt0'', state = None\<rparr>,
      stateStore = [], loginTime = Some 5000, isLoggedIn = True, location_search = [],
      location_hash = ''#company=2'', replaced = [], interactions = []\<rparr>"

definition api401 :: ui_error where
  "api401 = UIError ''unauthorized'' 401 None"

section \<open>Properties\<close>

lemmas store_defs =
  getUser_def storeUser_def removeUser_def record_call_def replaceState_def clearLoginState_def

lemmas truthy_defs = truthy_def truthy_opt_def truthy_num_def has_refresh_token_def

lemmas sample_defs =
  wrapping_factory_def wrap_error_def sample_codes_def config_for_def callback_world_def
  fresh_user_def session_world_def api401_def

subsection \<open>Clearing the session\<close>

lemma clearLoginState_fields:
  "userStore (clearLoginState w) = None"
  "loginTime (clearLoginState w) = None"
  "isLoggedIn (clearLoginState w) = False"
  "interactions (clearLoginState w) = interactions w"
  "replaced (clearLoginState w) = replaced w"
  by (simp_all add: clearLoginState_def removeUser_def)

text \<open>
  C8. \<open>clearLoginState\<close> is idempotent: from every state, calling it twice leaves the
  state that calling it once leaves, in which the user store is empty, the login time
  is null and the login flag is false.
\<close>

theorem clearLoginState_idempotent:
  "clearLoginState (clearLoginState w) = clearLoginState w
   \<and> userStore (clearLoginState w) = None
   \<and> loginTime (clearLoginState w) = None
   \<and> isLoggedIn (clearLoginState w) = False"
  by (simp add: clearLoginState_def removeUser_def)

subsection \<open>Reading and refreshing the access token\<close>

text \<open>
  C6. When the user store holds a user with a non-empty access token, \<open>getAccessToken\<close>
  returns that token and leaves the whole state as it was: no call into the protocol
  layer is recorded, and the session, the login flag and the login time are unchanged.
  When the store is empty or the stored access token is empty, \<open>getAccessToken\<close> is
  \<open>refreshAccessToken\<close>: same result, same final state.
\<close>

theorem getAccessToken_returns_present_token:
  "(getUser w = Some u \<and> access_token u \<noteq> [] \<longrightarrow>
      getAccessToken cfg codes ef out w = (Inr (Some (access_token u)), w))
   \<and> (getUser w = None \<or> (getUser w = Some u \<and> access_token u = []) \<longrightarrow>
      getAccessToken cfg codes ef out w = refreshAccessToken cfg codes ef out w)"
proof (cases "getUser w")
  case None
  then show ?thesis by (simp add: getAccessToken_def)
next
  case (Some v)
  then show ?thesis by (simp add: getAccessToken_def truthy_def)
qed

theorem getAccessToken_returns_present_token_witness:
  "getUser session_world = Some \<lparr>access_token = ''at0'', refresh_token = Some ''rt0'', state = None\<rparr>
   \<and> ''at0'' \<noteq> []
   \<and> getAccessToken (config_for ''cognito'') sample_codes wrapping_factory
        (Returns fresh_user) session_world = (Inr (Some ''at0''), session_world)
   \<and> getUser callback_world = None
   \<and> getAccessToken (config_for ''cognito'') sample_codes wrapping_factory
        (Returns fresh_user) callback_world
      = refreshAccessToken (config_for ''cognito'') sample_codes wrapping_factory
        (Returns fresh_user) callback_world"
proof -
  have present: "getUser session_world
      = Some \<lparr>access_token = ''at0'', refresh_token = Some ''rt0'', state = None\<rparr>"
    by (simp add: getUser_def session_world_def)
  have absent: "getUser callback_world = None"
    by (simp add: getUser_def callback_world_def)
  from present
    getAccessToken_returns_present_token
      [where w = session_world
         and u = "\<lparr>access_token = ''at0'', refresh_token = Some ''rt0'', state = None\<rparr>"
         and cfg = "config_for ''cognito''" and codes = sample_codes
         and ef = wrapping_factory and out = "Returns fresh_user"]
  have first: "getAccessToken (config_for ''cognito'') sample_codes wrapping_factory
        (Returns fresh_user) session_world = (Inr (Some ''at0''), session_world)"
    by simp
  from absent
    getAccessToken_returns_present_token
      [where w = callback_world and cfg = "config_for ''cognito''" and codes = sample_codes
         and ef = wrapping_factory and out = "Returns fresh_user"]
  have second: "getAccessToken (config_for ''cognito'') sample_codes wrapping_factory
        (Returns fresh_user) callback_world
      = refreshAccessToken (config_for ''cognito'') sample_codes wrapping_factory
        (Returns fresh_user) callback_world"
    by simp
  from present absent first second show ?thesis by simp
qed

text \<open>
  C7. When the login flag is false, \<open>refreshAccessToken\<close> returns null and leaves the
  whole state as it was: no silent renewal is recorded and nothing is modified.
\<close>

theorem refreshAccessToken_not_logged_in:
  assumes "\<not> isLoggedIn w"
  shows "refreshAccessToken cfg codes ef out w = (Inr None, w)"
  using assms by (simp add: refreshAccessToken_def)

theorem refreshAccessToken_not_logged_in_witness:
  "\<not> isLoggedIn callback_world
   \<and> refreshAccessToken (config_for ''idp'') sample_codes wrapping_factory
        (Returns fresh_user) callback_world = (Inr None, callback_world)"
proof -
  have h: "\<not> isLoggedIn callback_world" by (simp add: callback_world_def)
  from refreshAccessToken_not_logged_in [OF h] show ?thesis using h by simp
qed

text \<open>
  C10. For the provider \<open>'cognito'\<close>, when the login flag is true and the user store
  holds no user or a user without a (non-empty) refresh token, \<open>refreshAccessToken\<close>
  makes no silent renewal call, leaves the state as it was, and returns the stored
  access token when there is a non-empty one and null otherwise.
\<close>

theorem refreshAccessToken_cognito_without_refresh_token:
  assumes "provider cfg = ''cognito''" and "isLoggedIn w"
    and "\<not> has_refresh_token (getUser w)"
  shows "refreshAccessToken cfg codes ef out w = (Inr (current_token w), w)
    \<and> (getUser w = None \<longrightarrow> current_token w = None)
    \<and> (getUser w = Some u \<longrightarrow>
         current_token w = (if access_token u \<noteq> [] then Some (access_token u) else None))"
  using assms by (simp add: refreshAccessToken_def renew_def current_token_def truthy_def)

theorem refreshAccessToken_cognito_without_refresh_token_witness:
  "provider (config_for ''cognito'') = ''cognito''
   \<and> isLoggedIn (session_world\<lparr>userStore := Some (fresh_user\<lparr>refresh_token := None\<rparr>)\<rparr>)
   \<and> \<not> has_refresh_token
         (getUser (session_world\<lparr>userStore := Some (fresh_user\<lparr>refresh_token := None\<rparr>)\<rparr>))
   \<and> refreshAccessToken (config_for ''cognito'') sample_codes wrapping_factory
        (Returns fresh_user)
        (session_world\<lparr>userStore := Some (fresh_user\<lparr>refresh_token := None\<rparr>)\<rparr>)
      = (Inr (Some ''at1''),
         session_world\<lparr>userStore := Some (fresh_user\<lparr>refresh_token := None\<rparr>)\<rparr>)"
proof -
  let ?w = "session_world\<lparr>userStore := Some (fresh_user\<lparr>refresh_token := None\<rparr>)\<rparr>"
  have p: "provider (config_for ''cognito'') = ''cognito''"
    by (simp add: config_for_def)
  have l: "isLoggedIn ?w"
    by (simp add: session_world_def)
  have g: "getUser ?w = Some (fresh_user\<lparr>refresh_token := None\<rparr>)"
    by (simp add: getUser_def)
  have r: "\<not> has_refresh_token (getUser ?w)"
    by (simp add: g has_refresh_token_def truthy_opt_def)
  have a: "access_token (fresh_user\<lparr>refresh_token := None\<rparr>) = ''at1''"
    by (simp add: fresh_user_def)
  from refreshAccessToken_cognito_without_refresh_token
         [OF p l r, where u = "fresh_user\<lparr>refresh_token := None\<rparr>"
            and codes = sample_codes and ef = wrapping_factory and out = "Returns fresh_user"]
  have "refreshAccessToken (config_for ''cognito'') sample_codes wrapping_factory
          (Returns fresh_user) ?w = (Inr (Some ''at1''), ?w)"
    using g a by simp
  with p l r show ?thesis by simp
qed

subsection \<open>The login response\<close>

text \<open>
  C9. When the page's URL has a \<open>state\<close> query parameter and the state store holds
  nothing under that value, \<open>handleLoginResponse\<close> returns without having done
  anything: the state it leaves is the state it found, so no authorization-code
  exchange is recorded, the session, the login flag and the login time are unchanged,
  \<open>history.replaceState\<close> is not called and the query of the URL is as it was.
\<close>

theorem handleLoginResponse_unknown_state:
  assumes "map_of (location_search w) ''state'' = Some st"
    and "map_of (stateStore w) st = None"
  shows "handleLoginResponse cfg codes ef out now w = (Inr (), w)"
proof (cases "truthy st")
  case True
  with assms show ?thesis by (simp add: handleLoginResponse_def)
next
  case False
  with assms(1) show ?thesis by (simp add: handleLoginResponse_def)
qed

theorem handleLoginResponse_unknown_state_witness:
  "map_of (location_search (callback_world\<lparr>stateStore := []\<rparr>)) ''state'' = Some ''s1''
   \<and> map_of (stateStore (callback_world\<lparr>stateStore := []\<rparr>)) ''s1'' = None
   \<and> handleLoginResponse (config_for ''idp'') sample_codes wrapping_factory
        (Returns fresh_user) 7000 (callback_world\<lparr>stateStore := []\<rparr>)
      = (Inr (), callback_world\<lparr>stateStore := []\<rparr>)"
proof -
  have q: "map_of (location_search (callback_world\<lparr>stateStore := []\<rparr>)) ''state'' = Some ''s1''"
    by (simp add: callback_world_def)
  have n: "map_of (stateStore (callback_world\<lparr>stateStore := []\<rparr>)) ''s1'' = None"
    by simp
  from handleLoginResponse_unknown_state [OF q n] q n show ?thesis by simp
qed

lemma handleLoginResponse_matching:
  assumes "map_of (location_search w) ''state'' = Some st" and "truthy st"
    and "map_of (stateStore w) st = Some storedState" and "truthy storedState"
  shows "handleLoginResponse cfg codes ef out now w = complete_login cfg codes ef out now w"
  using assms by (simp add: handleLoginResponse_def)

lemma complete_login_throws:
  "complete_login cfg codes ef (Throws e) now w =
     (Inl (getFromLoginOperation ef (Raw (LibError e)) (loginResponseFailed codes)),
      replaceState ''#'' (record_call SigninRedirectCallback w))"
  by (simp add: complete_login_def signinRedirectCallback_def)

lemma complete_login_returns:
  assumes "state u = Some d"
  shows "complete_login cfg codes ef (Returns u) now w =
     (Inr (),
      replaceState (hash d)
        ((storeUser (if provider cfg \<noteq> ''cognito'' then u\<lparr>refresh_token := Some []\<rparr> else u)
            (storeUser u (record_call SigninRedirectCallback w)))
         \<lparr>isLoggedIn := True, loginTime := Some now\<rparr>))"
  using assms by (simp add: complete_login_def signinRedirectCallback_def Let_def)

lemma complete_login_no_state:
  assumes "state u = None"
  shows "complete_login cfg codes ef (Returns u) now w =
     (Inl (getFromLoginOperation ef (Raw TypeError) (loginResponseFailed codes)),
      replaceState ''#''
        (storeUser (if provider cfg \<noteq> ''cognito'' then u\<lparr>refresh_token := Some []\<rparr> else u)
           (storeUser u (record_call SigninRedirectCallback w))))"
  using assms by (simp add: complete_login_def signinRedirectCallback_def Let_def)

text \<open>
  When \<open>handleLoginResponse\<close> finds a login response (a non-empty \<open>state\<close> query
  parameter under which the state store holds an entry), it calls
  \<open>history.replaceState\<close> exactly once, on every path: with the saved \<open>hash\<close> when the
  authorization-code exchange returns a user that carries its state, and with \<open>'#'\<close>
  when the exchange throws (the method then raises the login-response error made of
  that failure) or the returned user carries no state.
\<close>

lemma handleLoginResponse_always_replaces_location:
  assumes "map_of (location_search w) ''state'' = Some st" and "truthy st"
    and "map_of (stateStore w) st = Some storedState" and "truthy storedState"
  shows "replaced (snd (handleLoginResponse cfg codes ef out now w)) =
           (case out of
              Throws e \<Rightarrow> ''#''
            | Returns u \<Rightarrow> (case state u of None \<Rightarrow> ''#'' | Some d \<Rightarrow> hash d)) # replaced w
         \<and> (out = Throws e \<longrightarrow>
              fst (handleLoginResponse cfg codes ef out now w) =
                Inl (getFromLoginOperation ef (Raw (LibError e)) (loginResponseFailed codes)))"
proof (cases out)
  case (Throws x)
  then show ?thesis
    by (simp add: handleLoginResponse_matching [OF assms] complete_login_throws
          replaceState_def record_call_def)
next
  case (Returns u)
  show ?thesis
  proof (cases "state u")
    case None
    with Returns show ?thesis
      by (simp add: handleLoginResponse_matching [OF assms] complete_login_no_state store_defs)
  next
    case (Some d)
    with Returns show ?thesis
      by (simp add: handleLoginResponse_matching [OF assms] complete_login_returns store_defs)
  qed
qed

lemma handleLoginResponse_always_replaces_location_example:
  "map_of (location_search callback_world) ''state'' = Some ''s1'' \<and> truthy ''s1''
   \<and> map_of (stateStore callback_world) ''s1'' = Some ''stored'' \<and> truthy ''stored''
   \<and> replaced (snd (handleLoginResponse (config_for ''idp'') sample_codes wrapping_factory
         (Throws (OidcError (Some ''access_denied'') ''denied'')) 7000 callback_world)) = [''#'']
   \<and> fst (handleLoginResponse (config_for ''idp'') sample_codes wrapping_factory
         (Throws (OidcError (Some ''access_denied'') ''denied'')) 7000 callback_world)
       = Inl (UIError ''login_response_failed'' 0
               (Some (LibError (OidcError (Some ''access_denied'') ''denied''))))
   \<and> replaced (snd (handleLoginResponse (config_for ''idp'') sample_codes wrapping_factory
         (Returns fresh_user) 7000 callback_world)) = [''#foo'']"
proof -
  have q: "map_of (location_search callback_world) ''state'' = Some ''s1''"
    and s: "map_of (stateStore callback_world) ''s1'' = Some ''stored''"
    by (simp_all add: callback_world_def)
  have t: "truthy ''s1''" "truthy ''stored''"
    by (simp_all add: truthy_def)
  note inst = handleLoginResponse_always_replaces_location [OF q t(1) s t(2)]
  from inst [where out = "Throws (OidcError (Some ''access_denied'') ''denied'')"
              and e = "OidcError (Some ''access_denied'') ''denied''"
              and cfg = "config_for ''idp''" and codes = sample_codes
              and ef = wrapping_factory and now = 7000]
  have failure:
    "replaced (snd (handleLoginResponse (config_for ''idp'') sample_codes wrapping_factory
         (Throws (OidcError (Some ''access_denied'') ''denied'')) 7000 callback_world)) = [''#'']"
    "fst (handleLoginResponse (config_for ''idp'') sample_codes wrapping_factory
         (Throws (OidcError (Some ''access_denied'') ''denied'')) 7000 callback_world)
       = Inl (UIError ''login_response_failed'' 0
               (Some (LibError (OidcError (Some ''access_denied'') ''denied''))))"
    by (simp_all add: callback_world_def wrapping_factory_def wrap_error_def sample_codes_def)
  from inst [where out = "Returns fresh_user" and cfg = "config_for ''idp''"
              and codes = sample_codes and ef = wrapping_factory and now = 7000]
  have success:
    "replaced (snd (handleLoginResponse (config_for ''idp'') sample_codes wrapping_factory
         (Returns fresh_user) 7000 callback_world)) = [''#foo'']"
    by (simp add: callback_world_def fresh_user_def)
  from q s t failure success show ?thesis by simp
qed

lemma handleLoginResponse_keeps_location:
  "location_search (snd (handleLoginResponse cfg codes ef out now w)) = location_search w"
  "location_hash (snd (handleLoginResponse cfg codes ef out now w)) = location_hash w"
  by (auto simp: handleLoginResponse_def complete_login_def signinRedirectCallback_def
        store_defs Let_def split: option.splits outcome.splits)

lemma handleLoginResponse_keeps_query:
  assumes "map_of (location_search w) ''state'' = Some st" and "truthy st"
    and "map_of (stateStore w) st = Some storedState" and "truthy storedState"
    and "list_all fragment_only (replaced w)"
    and "case out of Throws e \<Rightarrow> True
         | Returns u \<Rightarrow> (case state u of None \<Rightarrow> True | Some d \<Rightarrow> fragment_only (hash d))"
  shows "visible_query (snd (handleLoginResponse cfg codes ef out now w)) = Some (location_search w)"
proof -
  have target: "fragment_only
      (case out of Throws e \<Rightarrow> ''#''
       | Returns u \<Rightarrow> (case state u of None \<Rightarrow> ''#'' | Some d \<Rightarrow> hash d))"
    using assms(6) by (simp add: fragment_only_def split: outcome.splits option.splits)
  have "replaced (snd (handleLoginResponse cfg codes ef out now w)) =
      (case out of Throws e \<Rightarrow> ''#''
       | Returns u \<Rightarrow> (case state u of None \<Rightarrow> ''#'' | Some d \<Rightarrow> hash d)) # replaced w"
    using handleLoginResponse_always_replaces_location [OF assms(1-4)] by simp
  with target assms(5) show ?thesis
    by (simp add: visible_query_def handleLoginResponse_keeps_location)
qed


text \<open>
  C5. When \<open>handleLoginResponse\<close> finds a login response and the authorization-code
  exchange returns a user whose state carries the saved fragment \<open>hash d\<close> (for
  instance \<open>'#foo'\<close>), the method returns normally, the URL given to
  \<open>history.replaceState\<close> is that fragment, the login flag is true, the login time is
  the current time, and the user store holds the returned user (with the refresh
  token emptied unless the provider is \<open>'cognito'\<close>). The saved state is the
  \<open>data\<close> of \<open>startLogin\<close>: when the page had no fragment as the login started, the
  fragment saved, and so the one restored, is \<open>'#'\<close>.
\<close>

theorem handleLoginResponse_success:
  fixes cfg codes ef u now and w :: world and w0 :: world
  defines "r \<equiv> handleLoginResponse cfg codes ef (Returns u) now w"
  assumes "map_of (location_search w) ''state'' = Some st" and "truthy st"
    and "map_of (stateStore w) st = Some storedState" and "truthy storedState"
    and "state u = Some d"
  shows "fst r = Inr ()
    \<and> replaced (snd r) = hash d # replaced w
    \<and> isLoggedIn (snd r)
    \<and> loginTime (snd r) = Some now
    \<and> userStore (snd r)
        = Some (if provider cfg \<noteq> ''cognito'' then u\<lparr>refresh_token := Some []\<rparr> else u)
    \<and> (d = redirect_data w0 \<longrightarrow>
         replaced (snd r) = (if location_hash w0 = [] then ''#'' else location_hash w0) # replaced w)"
proof -
  have "r = complete_login cfg codes ef (Returns u) now w"
    unfolding r_def using assms(2-5) by (rule handleLoginResponse_matching)
  also have "\<dots> = (Inr (),
      replaceState (hash d)
        ((storeUser (if provider cfg \<noteq> ''cognito'' then u\<lparr>refresh_token := Some []\<rparr> else u)
            (storeUser u (record_call SigninRedirectCallback w)))
         \<lparr>isLoggedIn := True, loginTime := Some now\<rparr>))"
    using assms(6) by (rule complete_login_returns)
  finally have r: "r = (Inr (),
      replaceState (hash d)
        ((storeUser (if provider cfg \<noteq> ''cognito'' then u\<lparr>refresh_token := Some []\<rparr> else u)
            (storeUser u (record_call SigninRedirectCallback w)))
         \<lparr>isLoggedIn := True, loginTime := Some now\<rparr>))" .
  have saved: "hash (redirect_data w0) = (if location_hash w0 = [] then ''#'' else location_hash w0)"
    by (simp add: redirect_data_def)
  show ?thesis
    unfolding r using saved by (simp add: store_defs)
qed

theorem handleLoginResponse_success_witness:
  "map_of (location_search callback_world) ''state'' = Some ''s1'' \<and> truthy ''s1''
   \<and> map_of (stateStore callback_world) ''s1'' = Some ''stored'' \<and> truthy ''stored''
   \<and> state fresh_user = Some \<lparr>hash = ''#foo''\<rparr>
   \<and> handleLoginResponse (config_for ''idp'') sample_codes wrapping_factory
        (Returns fresh_user) 7000 callback_world
      = (Inr (),
         callback_world
           \<lparr>userStore := Some (fresh_user\<lparr>refresh_token := Some []\<rparr>),
            loginTime := Some 7000, isLoggedIn := True, replaced := [''#foo''],
            interactions := [SigninRedirectCallback]\<rparr>)
   \<and> state (fresh_user\<lparr>state := Some (redirect_data callback_world)\<rparr>)
       = Some (redirect_data callback_world)
   \<and> replaced (snd (handleLoginResponse (config_for ''idp'') sample_codes wrapping_factory
        (Returns (fresh_user\<lparr>state := Some (redirect_data callback_world)\<rparr>)) 7000
        callback_world)) = [''#'']"
proof -
  have q: "map_of (location_search callback_world) ''state'' = Some ''s1''"
    and s: "map_of (stateStore callback_world) ''s1'' = Some ''stored''"
    by (simp_all add: callback_world_def)
  have t: "truthy ''s1''" "truthy ''stored''"
    by (simp_all add: truthy_def)
  have f: "state fresh_user = Some \<lparr>hash = ''#foo''\<rparr>"
    by (simp add: fresh_user_def)
  have g: "state (fresh_user\<lparr>state := Some (redirect_data callback_world)\<rparr>)
       = Some (redirect_data callback_world)"
    by simp
  from handleLoginResponse_success [OF q t(1) s t(2) f,
         where cfg = "config_for ''idp''" and codes = sample_codes and ef = wrapping_factory
           and now = 7000 and ?w0.0 = callback_world]
  have first: "handleLoginResponse (config_for ''idp'') sample_codes wrapping_factory
        (Returns fresh_user) 7000 callback_world
      = (Inr (),
         callback_world
           \<lparr>userStore := Some (fresh_user\<lparr>refresh_token := Some []\<rparr>),
            loginTime := Some 7000, isLoggedIn := True, replaced := [''#foo''],
            interactions := [SigninRedirectCallback]\<rparr>)"
    by (simp add: handleLoginResponse_def complete_login_def signinRedirectCallback_def
          store_defs truthy_defs sample_defs Let_def)
  from handleLoginResponse_success [OF q t(1) s t(2) g,
         where cfg = "config_for ''idp''" and codes = sample_codes and ef = wrapping_factory
           and now = 7000 and ?w0.0 = callback_world]
  have second: "replaced (snd (handleLoginResponse (config_for ''idp'') sample_codes
        wrapping_factory (Returns (fresh_user\<lparr>state := Some (redirect_data callback_world)\<rparr>))
        7000 callback_world)) = [''#'']"
    by (simp add: callback_world_def redirect_data_def)
  from q s t f g first second show ?thesis by simp
qed

subsection \<open>Failure of a silent renewal\<close>

lemma iframe_renewal_throws:
  "performAccessTokenRenewalViaIframeRedirect codes ef (Throws e) w =
     (if error e = Some (loginRequired codes)
      then (Inr (), clearLoginState (record_call SigninSilent w))
      else (Inl (getFromTokenError ef (Raw (LibError e)) (tokenRenewalError codes)),
            record_call SigninSilent w))"
  by (simp add: performAccessTokenRenewalViaIframeRedirect_def signinSilent_def)

lemma refresh_token_renewal_throws:
  "performAccessTokenRenewalViaRefreshToken codes ef (Throws e) w =
     (if error e = Some (sessionExpired codes)
      then (Inr (), clearLoginState (record_call SigninSilent w))
      else (Inl (getFromTokenError ef (Raw (LibError e)) (tokenRenewalError codes)),
            record_call SigninSilent w))"
  by (simp add: performAccessTokenRenewalViaRefreshToken_def signinSilent_def)

lemma cleared_has_no_token:
  "current_token (clearLoginState w) = None"
  "remove_refresh_token (clearLoginState w) = clearLoginState w"
  by (simp_all add: current_token_def remove_refresh_token_def getUser_def clearLoginState_fields)

text \<open>
  C4. A silent renewal that \<open>refreshAccessToken\<close> attempts (the login flag is true,
  and under \<open>'cognito'\<close> a refresh token is stored) and that fails. Under the refresh
  token strategy (\<open>'cognito'\<close>) a failure whose \<open>error\<close> is
  \<open>ErrorCodes.sessionExpired\<close> clears the login state and the call returns null; under
  the iframe strategy (any other provider) a failure whose \<open>error\<close> is
  \<open>ErrorCodes.loginRequired\<close> does. Any other failure is raised as the error that
  \<open>ErrorFactory.getFromTokenError\<close> makes of it with \<open>ErrorCodes.tokenRenewalError\<close>,
  and the session is left as it was. In the cleared state the user store is empty,
  the login time null and the login flag false.
\<close>

theorem refreshAccessToken_renewal_failure:
  assumes "isLoggedIn w"
  shows
    "(provider cfg = ''cognito'' \<and> has_refresh_token (getUser w) \<longrightarrow>
        refreshAccessToken cfg codes ef (Throws e) w =
          (if error e = Some (sessionExpired codes)
           then (Inr None, clearLoginState (record_call SigninSilent w))
           else (Inl (getFromTokenError ef (Raw (LibError e)) (tokenRenewalError codes)),
                 record_call SigninSilent w)))
     \<and> (provider cfg \<noteq> ''cognito'' \<longrightarrow>
        refreshAccessToken cfg codes ef (Throws e) w =
          (if error e = Some (loginRequired codes)
           then (Inr None, clearLoginState (record_call SigninSilent w))
           else (Inl (getFromTokenError ef (Raw (LibError e)) (tokenRenewalError codes)),
                 record_call SigninSilent w)))
     \<and> userStore (clearLoginState (record_call SigninSilent w)) = None
     \<and> loginTime (clearLoginState (record_call SigninSilent w)) = None
     \<and> \<not> isLoggedIn (clearLoginState (record_call SigninSilent w))"
proof -
  have cognito: "refreshAccessToken cfg codes ef (Throws e) w =
          (if error e = Some (sessionExpired codes)
           then (Inr None, clearLoginState (record_call SigninSilent w))
           else (Inl (getFromTokenError ef (Raw (LibError e)) (tokenRenewalError codes)),
                 record_call SigninSilent w))"
    if "provider cfg = ''cognito''" and "has_refresh_token (getUser w)"
    using that assms
    by (simp add: refreshAccessToken_def renew_def refresh_token_renewal_throws
          cleared_has_no_token)
  have iframe: "refreshAccessToken cfg codes ef (Throws e) w =
          (if error e = Some (loginRequired codes)
           then (Inr None, clearLoginState (record_call SigninSilent w))
           else (Inl (getFromTokenError ef (Raw (LibError e)) (tokenRenewalError codes)),
                 record_call SigninSilent w))"
    if "provider cfg \<noteq> ''cognito''"
    using that assms
    by (simp add: refreshAccessToken_def renew_def iframe_renewal_throws cleared_has_no_token)
  from cognito iframe show ?thesis
    by (simp add: clearLoginState_fields)
qed

theorem refreshAccessToken_renewal_failure_witness:
  "isLoggedIn session_world
   \<and> provider (config_for ''cognito'') = ''cognito''
   \<and> has_refresh_token (getUser session_world)
   \<and> refreshAccessToken (config_for ''cognito'') sample_codes wrapping_factory
        (Throws (OidcError (Some ''invalid_grant'') ''expired'')) session_world
      = (Inr None, clearLoginState (record_call SigninSilent session_world))
   \<and> refreshAccessToken (config_for ''cognito'') sample_codes wrapping_factory
        (Throws (OidcError (Some ''login_required'') ''no cookie'')) session_world
      = (Inl (UIError ''token_renewal_error'' 0
               (Some (LibError (OidcError (Some ''login_required'') ''no cookie'')))),
         record_call SigninSilent session_world)
   \<and> provider (config_for ''idp'') \<noteq> ''cognito''
   \<and> refreshAccessToken (config_for ''idp'') sample_codes wrapping_factory
        (Throws (OidcError (Some ''login_required'') ''no cookie'')) session_world
      = (Inr None, clearLoginState (record_call SigninSilent session_world))
   \<and> refreshAccessToken (config_for ''idp'') sample_codes wrapping_factory
        (Throws (OidcError None ''timeout'')) session_world
      = (Inl (UIError ''token_renewal_error'' 0 (Some (LibError (OidcError None ''timeout'')))),
         record_call SigninSilent session_world)"
proof -
  have l: "isLoggedIn session_world"
    by (simp add: session_world_def)
  have c: "provider (config_for ''cognito'') = ''cognito''"
    and i: "provider (config_for ''idp'') \<noteq> ''cognito''"
    by (simp_all add: config_for_def)
  have h: "has_refresh_token (getUser session_world)"
    by (simp add: has_refresh_token_def getUser_def session_world_def truthy_opt_def truthy_def)
  note inst = refreshAccessToken_renewal_failure [OF l, where codes = sample_codes
      and ef = wrapping_factory]
  from inst [where cfg = "config_for ''cognito''"
               and e = "OidcError (Some ''invalid_grant'') ''expired''"] c h
  have a1: "refreshAccessToken (config_for ''cognito'') sample_codes wrapping_factory
        (Throws (OidcError (Some ''invalid_grant'') ''expired'')) session_world
      = (Inr None, clearLoginState (record_call SigninSilent session_world))"
    by (simp add: sample_codes_def)
  from inst [where cfg = "config_for ''cognito''"
               and e = "OidcError (Some ''login_required'') ''no cookie''"] c h
  have a2: "refreshAccessToken (config_for ''cognito'') sample_codes wrapping_factory
        (Throws (OidcError (Some ''login_required'') ''no cookie'')) session_world
      = (Inl (UIError ''token_renewal_error'' 0
               (Some (LibError (OidcError (Some ''login_required'') ''no cookie'')))),
         record_call SigninSilent session_world)"
    by (simp add: sample_codes_def wrapping_factory_def wrap_error_def)
  from inst [where cfg = "config_for ''idp''"
               and e = "OidcError (Some ''login_required'') ''no cookie''"] i
  have a3: "refreshAccessToken (config_for ''idp'') sample_codes wrapping_factory
        (Throws (OidcError (Some ''login_required'') ''no cookie'')) session_world
      = (Inr None, clearLoginState (record_call SigninSilent session_world))"
    by (simp add: sample_codes_def)
  from inst [where cfg = "config_for ''idp''" and e = "OidcError None ''timeout''"] i
  have a4: "refreshAccessToken (config_for ''idp'') sample_codes wrapping_factory
        (Throws (OidcError None ''timeout'')) session_world
      = (Inl (UIError ''token_renewal_error'' 0 (Some (LibError (OidcError None ''timeout'')))),
         record_call SigninSilent session_world)"
    by (simp add: sample_codes_def wrapping_factory_def wrap_error_def)
  from l c h i a1 a2 a3 a4 show ?thesis by simp
qed

subsection \<open>The redirect loop guard\<close>

lemma preventRedirectLoop_recent:
  assumes "loginTime w = Some t" and "t \<noteq> 0" and "now - t < 1000"
  shows "preventRedirectLoop (Some err) now w = (Inl err, clearLoginState w)"
  using assms by (simp add: preventRedirectLoop_def truthy_num_def)

lemma preventRedirectLoop_passes:
  assumes "api401Error = None \<or> loginTime w = None \<or> (loginTime w = Some t \<and> 1000 \<le> now - t)"
  shows "preventRedirectLoop api401Error now w = (Inr (), w)"
  using assms
  by (auto simp: preventRedirectLoop_def truthy_num_def split: option.splits)

lemma startLogin_guard_passed:
  assumes "preventRedirectLoop api401Error now w = (Inr (), w)"
  shows "startLogin codes ef api401Error now out w =
     (case out of
        Throws e \<Rightarrow> Inl (getFromLoginOperation ef (Raw (LibError e)) (loginRequestFailed codes))
      | Returns _ \<Rightarrow> Inr (),
      record_call (SigninRedirect (redirect_data w)) w)"
  using assms by (cases out) (simp_all add: startLogin_def signinRedirect_def)

text \<open>
  C1. \<open>startLogin\<close> called with a prior API error \<open>err\<close> while a login time \<open>t\<close> is
  recorded (a number other than 0, which is what the guard's test \<open>this._loginTime\<close>
  accepts; \<open>getTime\<close> gives 0 only at the epoch itself). \<open>ErrorFactory\<close> is a
  parameter: the first part takes it to hand back an error that is already a
  \<open>UIError\<close>, as it is.
  \<^item> When less than 1000 milliseconds have passed since \<open>t\<close>, \<open>startLogin\<close> raises
    \<open>err\<close> itself and leaves the cleared state: user store empty, login time null,
    login flag false, and no redirect among the recorded calls.
  \<^item> When 5000 milliseconds or more have passed, or no error is given, or no login time
    is recorded, \<open>startLogin\<close> goes on to \<open>signinRedirect\<close> with the data that holds the
    current fragment: the call is recorded, the session is untouched, and the method
    returns, or raises the login-request error made of the failure of the redirect.
\<close>

theorem startLogin_redirect_loop_guard:
  "(loginTime w = Some t \<and> t \<noteq> 0 \<and> now - t < 1000
      \<and> getFromLoginOperation ef (Handled err) (loginRequestFailed codes) = err \<longrightarrow>
        startLogin codes ef (Some err) now out w = (Inl err, clearLoginState w)
        \<and> userStore (clearLoginState w) = None
        \<and> loginTime (clearLoginState w) = None
        \<and> \<not> isLoggedIn (clearLoginState w)
        \<and> interactions (clearLoginState w) = interactions w)
   \<and> (api401Error = None \<or> loginTime w = None \<or> (loginTime w = Some t \<and> 5000 \<le> now - t) \<longrightarrow>
        startLogin codes ef api401Error now out w =
          (case out of
             Throws e \<Rightarrow>
               Inl (getFromLoginOperation ef (Raw (LibError e)) (loginRequestFailed codes))
           | Returns _ \<Rightarrow> Inr (),
           record_call (SigninRedirect (redirect_data w)) w))"
proof (intro conjI impI)
  assume recent: "loginTime w = Some t \<and> t \<noteq> 0 \<and> now - t < 1000
      \<and> getFromLoginOperation ef (Handled err) (loginRequestFailed codes) = err"
  then have "preventRedirectLoop (Some err) now w = (Inl err, clearLoginState w)"
    by (simp add: preventRedirectLoop_recent)
  with recent show "startLogin codes ef (Some err) now out w = (Inl err, clearLoginState w)"
    by (simp add: startLogin_def)
next
  assume "api401Error = None \<or> loginTime w = None \<or> (loginTime w = Some t \<and> 5000 \<le> now - t)"
  then have "api401Error = None \<or> loginTime w = None \<or> (loginTime w = Some t \<and> 1000 \<le> now - t)"
    by auto
  then have "preventRedirectLoop api401Error now w = (Inr (), w)"
    by (rule preventRedirectLoop_passes)
  then show "startLogin codes ef api401Error now out w =
          (case out of
             Throws e \<Rightarrow>
               Inl (getFromLoginOperation ef (Raw (LibError e)) (loginRequestFailed codes))
           | Returns _ \<Rightarrow> Inr (),
           record_call (SigninRedirect (redirect_data w)) w)"
    by (rule startLogin_guard_passed)
qed (simp_all add: clearLoginState_fields)

theorem startLogin_redirect_loop_guard_witness:
  "loginTime session_world = Some 5000 \<and> (5000 :: int) \<noteq> 0 \<and> (5400 :: int) - 5000 < 1000
   \<and> getFromLoginOperation wrapping_factory (Handled api401) (loginRequestFailed sample_codes)
       = api401
   \<and> startLogin sample_codes wrapping_factory (Some api401) 5400 (Returns ()) session_world
       = (Inl api401, clearLoginState session_world)
   \<and> (5000 :: int) \<le> 10000 - 5000
   \<and> startLogin sample_codes wrapping_factory (Some api401) 10000 (Returns ()) session_world
       = (Inr (), record_call (SigninRedirect \<lparr>hash = ''#company=2''\<rparr>) session_world)
   \<and> startLogin sample_codes wrapping_factory None 5400 (Returns ()) session_world
       = (Inr (), record_call (SigninRedirect \<lparr>hash = ''#company=2''\<rparr>) session_world)
   \<and> loginTime callback_world = None
   \<and> startLogin sample_codes wrapping_factory (Some api401) 5400 (Returns ()) callback_world
       = (Inr (), record_call (SigninRedirect \<lparr>hash = ''#''\<rparr>) callback_world)"
proof -
  have t: "loginTime session_world = Some 5000"
    and n: "loginTime callback_world = None"
    by (simp_all add: session_world_def callback_world_def)
  have f: "getFromLoginOperation wrapping_factory (Handled api401)
             (loginRequestFailed sample_codes) = api401"
    by (simp add: wrapping_factory_def wrap_error_def)
  have d: "redirect_data session_world = \<lparr>hash = ''#company=2''\<rparr>"
    "redirect_data callback_world = \<lparr>hash = ''#''\<rparr>"
    by (simp_all add: redirect_data_def session_world_def callback_world_def)
  note inst = startLogin_redirect_loop_guard [where codes = sample_codes
      and ef = wrapping_factory and out = "Returns ()"]
  from inst [where w = session_world and t = 5000 and now = 5400 and err = api401] t f
  have a1: "startLogin sample_codes wrapping_factory (Some api401) 5400 (Returns ()) session_world
       = (Inl api401, clearLoginState session_world)"
    by simp
  from inst [where w = session_world and t = 5000 and now = 10000
               and api401Error = "Some api401"] t d
  have a2: "startLogin sample_codes wrapping_factory (Some api401) 10000 (Returns ())
       session_world
       = (Inr (), record_call (SigninRedirect \<lparr>hash = ''#company=2''\<rparr>) session_world)"
    by simp
  from inst [where w = session_world and now = 5400 and api401Error = None] d
  have a3: "startLogin sample_codes wrapping_factory None 5400 (Returns ()) session_world
       = (Inr (), record_call (SigninRedirect \<lparr>hash = ''#company=2''\<rparr>) session_world)"
    by simp
  from inst [where w = callback_world and now = 5400 and api401Error = "Some api401"] n d
  have a4: "startLogin sample_codes wrapping_factory (Some api401) 5400 (Returns ())
       callback_world
       = (Inr (), record_call (SigninRedirect \<lparr>hash = ''#''\<rparr>) callback_world)"
    by simp
  from t n f a1 a2 a3 a4 show ?thesis by simp
qed

subsection \<open>Refresh tokens in the user store\<close>

lemma remove_refresh_token_removes:
  "\<not> has_refresh_token (userStore (remove_refresh_token w))"
proof (cases "userStore w")
  case None
  then show ?thesis
    by (simp add: remove_refresh_token_def getUser_def has_refresh_token_def)
next
  case (Some u)
  then show ?thesis
    by (simp add: remove_refresh_token_def getUser_def storeUser_def has_refresh_token_def
          truthy_opt_def truthy_def)
qed

lemma iframe_refresh_leaves_no_refresh_token:
  assumes "provider cfg \<noteq> ''cognito''" and "isLoggedIn w"
    and "fst (refreshAccessToken cfg codes ef out w) = Inr tok"
  shows "\<not> has_refresh_token (userStore (snd (refreshAccessToken cfg codes ef out w)))"
proof (cases out)
  case (Throws e)
  show ?thesis
  proof (cases "error e = Some (loginRequired codes)")
    case True
    with Throws assms(1,2) show ?thesis
      by (simp add: refreshAccessToken_def renew_def iframe_renewal_throws cleared_has_no_token
            clearLoginState_fields has_refresh_token_def)
  next
    case False
    with Throws assms show ?thesis
      by (simp add: refreshAccessToken_def renew_def iframe_renewal_throws)
  qed
next
  case (Returns u)
  with assms(1,2) show ?thesis
    by (simp add: refreshAccessToken_def renew_def performAccessTokenRenewalViaIframeRedirect_def
          signinSilent_def remove_refresh_token_removes)
qed

lemma complete_login_stores:
  "userStore (snd (complete_login cfg codes ef (Returns u) now w)) =
     Some (if provider cfg \<noteq> ''cognito'' then u\<lparr>refresh_token := Some []\<rparr> else u)"
proof (cases "state u")
  case None
  then show ?thesis
    by (simp add: complete_login_no_state store_defs)
next
  case (Some d)
  then show ?thesis
    by (simp add: complete_login_returns store_defs)
qed

text \<open>
  C2, as the code has it. The claim fails for \<open>'cognito'\<close>: a login response handled
  for that provider leaves the returned refresh token in the user store.
\<close>

theorem cognito_login_keeps_refresh_token:
  "provider (config_for ''cognito'') = ''cognito''
   \<and> refresh_token fresh_user = Some ''rt1''
   \<and> fst (handleLoginResponse (config_for ''cognito'') sample_codes wrapping_factory
        (Returns fresh_user) 7000 callback_world) = Inr ()
   \<and> userStore (snd (handleLoginResponse (config_for ''cognito'') sample_codes wrapping_factory
        (Returns fresh_user) 7000 callback_world)) = Some fresh_user
   \<and> has_refresh_token (userStore (snd (handleLoginResponse (config_for ''cognito'')
        sample_codes wrapping_factory (Returns fresh_user) 7000 callback_world)))"
  by (simp add: handleLoginResponse_def complete_login_def signinRedirectCallback_def
        store_defs truthy_defs sample_defs Let_def)

text \<open>
  C2, amended. For every provider other than \<open>'cognito'\<close>, the refresh token returned
  from the handling of a login response is never kept: the user that
  \<open>handleLoginResponse\<close> leaves in the user store has the empty string as refresh
  token. For \<open>'cognito'\<close> the user is stored as returned, refresh token included. For
  every provider other than \<open>'cognito'\<close>, after \<open>refreshAccessToken\<close> has made its
  iframe renewal and returned, the user store holds no refresh token.
\<close>

theorem refresh_token_kept_only_for_cognito:
  assumes "map_of (location_search w) ''state'' = Some st" and "truthy st"
    and "map_of (stateStore w) st = Some storedState" and "truthy storedState"
  shows
    "(provider cfg \<noteq> ''cognito'' \<longrightarrow>
        userStore (snd (handleLoginResponse cfg codes ef (Returns u) now w))
          = Some (u\<lparr>refresh_token := Some []\<rparr>)
        \<and> \<not> has_refresh_token
              (userStore (snd (handleLoginResponse cfg codes ef (Returns u) now w))))
     \<and> (provider cfg = ''cognito'' \<longrightarrow>
        userStore (snd (handleLoginResponse cfg codes ef (Returns u) now w)) = Some u)
     \<and> (provider cfg \<noteq> ''cognito'' \<and> isLoggedIn w2
          \<and> fst (refreshAccessToken cfg codes ef out w2) = Inr tok \<longrightarrow>
        \<not> has_refresh_token (userStore (snd (refreshAccessToken cfg codes ef out w2))))"
proof -
  have stored: "userStore (snd (handleLoginResponse cfg codes ef (Returns u) now w)) =
      Some (if provider cfg \<noteq> ''cognito'' then u\<lparr>refresh_token := Some []\<rparr> else u)"
    by (simp add: handleLoginResponse_matching [OF assms] complete_login_stores)
  have emptied: "\<not> has_refresh_token (Some (u\<lparr>refresh_token := Some []\<rparr>))"
    by (simp add: has_refresh_token_def truthy_opt_def truthy_def)
  from stored emptied iframe_refresh_leaves_no_refresh_token [of cfg w2 codes ef out tok]
  show ?thesis by simp
qed

theorem refresh_token_kept_only_for_cognito_witness:
  "map_of (location_search callback_world) ''state'' = Some ''s1'' \<and> truthy ''s1''
   \<and> map_of (stateStore callback_world) ''s1'' = Some ''stored'' \<and> truthy ''stored''
   \<and> provider (config_for ''idp'') \<noteq> ''cognito''
   \<and> userStore (snd (handleLoginResponse (config_for ''idp'') sample_codes wrapping_factory
        (Returns fresh_user) 7000 callback_world))
       = Some (fresh_user\<lparr>refresh_token := Some []\<rparr>)
   \<and> provider (config_for ''cognito'') = ''cognito''
   \<and> userStore (snd (handleLoginResponse (config_for ''cognito'') sample_codes
        wrapping_factory (Returns fresh_user) 7000 callback_world)) = Some fresh_user
   \<and> isLoggedIn session_world
   \<and> fst (refreshAccessToken (config_for ''idp'') sample_codes wrapping_factory
        (Returns fresh_user) session_world) = Inr (Some ''at1'')
   \<and> \<not> has_refresh_token (userStore (snd (refreshAccessToken (config_for ''idp'') sample_codes
        wrapping_factory (Returns fresh_user) session_world)))"
proof -
  have q: "map_of (location_search callback_world) ''state'' = Some ''s1''"
    and s: "map_of (stateStore callback_world) ''s1'' = Some ''stored''"
    by (simp_all add: callback_world_def)
  have t: "truthy ''s1''" "truthy ''stored''"
    by (simp_all add: truthy_def)
  have c: "provider (config_for ''cognito'') = ''cognito''"
    and i: "provider (config_for ''idp'') \<noteq> ''cognito''"
    by (simp_all add: config_for_def)
  have l: "isLoggedIn session_world"
    by (simp add: session_world_def)
  have r: "fst (refreshAccessToken (config_for ''idp'') sample_codes wrapping_factory
        (Returns fresh_user) session_world) = Inr (Some ''at1'')"
    by (simp add: refreshAccessToken_def renew_def performAccessTokenRenewalViaIframeRedirect_def
          signinSilent_def remove_refresh_token_def current_token_def store_defs truthy_defs
          sample_defs)
  note inst = refresh_token_kept_only_for_cognito [OF q t(1) s t(2), where codes = sample_codes
      and ef = wrapping_factory and u = fresh_user and now = 7000 and ?w2.0 = session_world
      and out = "Returns fresh_user" and tok = "Some ''at1''"]
  from inst [where cfg = "config_for ''idp''"] i l r
  have a1: "userStore (snd (handleLoginResponse (config_for ''idp'') sample_codes
        wrapping_factory (Returns fresh_user) 7000 callback_world))
       = Some (fresh_user\<lparr>refresh_token := Some []\<rparr>)"
    and a3: "\<not> has_refresh_token (userStore (snd (refreshAccessToken (config_for ''idp'')
        sample_codes wrapping_factory (Returns fresh_user) session_world)))"
    by simp_all
  from inst [where cfg = "config_for ''cognito''"] c
  have a2: "userStore (snd (handleLoginResponse (config_for ''cognito'') sample_codes
        wrapping_factory (Returns fresh_user) 7000 callback_world)) = Some fresh_user"
    by simp
  from q s t c i l r a1 a2 a3 show ?thesis by simp
qed

end
